theory Spec2Isabelle
  imports Main
begin

section \<open>The credential, token and profile store of \<open>src/auth\<close>\<close>

text \<open>
  \<open>AuthManager\<close> (\<open>src/auth/auth_manager.py\<close>) keeps three SQLite tables and opens a
  fresh connection in every method. The model below is a shallow embedding of those
  methods: the database file is a record of three row lists (in rowid order) together
  with the \<open>AUTOINCREMENT\<close> counters, every method takes the database and returns its
  result dictionary together with the committed database, and a raised exception is a
  value of \<open>sqlite_error\<close>.

  What the methods read from their environment is passed in:
  \<^item> \<open>sha256\<close> stands for \<open>hashlib.sha256(password.encode()).hexdigest()\<close>;
  \<^item> \<open>current_timestamp\<close> is the value of SQL \<open>CURRENT_TIMESTAMP\<close> (UTC) and
    \<open>datetime_now\<close> the value of Python's \<open>datetime.now()\<close> (local time); both are
    counted in microseconds, and the comparison of the stored texts is the comparison
    of these numbers;
  \<^item> \<open>token\<close> is the string drawn by \<open>secrets.token_urlsafe(32)\<close>.

  Strings are Python \<open>str\<close> values, integers are SQLite \<open>INTEGER\<close> values, and the
  storage engine is taken to raise nothing but constraint violations.
\<close>

subsection \<open>Tables\<close>

type_synonym timestamp = nat

record user_row =
  u_id :: int
  u_email :: string
  u_password_hash :: string
  u_created_at :: timestamp
  u_last_login :: "timestamp option"
  u_is_profile_complete :: bool

record profile_row =
  sp_id :: int
  sp_user_id :: int
  sp_name :: string
  sp_year :: int
  sp_course :: string
  sp_interests :: string
  sp_goals :: string
  sp_hobbies :: string
  sp_learning_style :: string
  sp_current_skills :: string
  sp_created_at :: timestamp
  sp_updated_at :: timestamp

record token_row =
  rt_id :: int
  rt_user_id :: int
  rt_token :: string
  rt_expires_at :: timestamp
  rt_created_at :: timestamp

record db =
  users :: "user_row list"
  users_seq :: int
  student_profiles :: "profile_row list"
  student_profiles_seq :: int
  remember_tokens :: "token_row list"
  remember_tokens_seq :: int

text \<open>The database right after \<open>init_database\<close> has created the three empty tables.\<close>

definition init_database :: db where
  "init_database =
     \<lparr>users = [], users_seq = 0,
      student_profiles = [], student_profiles_seq = 0,
      remember_tokens = [], remember_tokens_seq = 0\<rparr>"

text \<open>
  \<open>INTEGER PRIMARY KEY AUTOINCREMENT\<close>: the new rowid is one more than the largest rowid
  the table has ever held, which the engine keeps in \<open>sqlite_sequence\<close>.
\<close>

definition next_rowid :: "int \<Rightarrow> int list \<Rightarrow> int" where
  "next_rowid seq ids = fold max ids seq + 1"

text \<open>The constraints the three \<open>CREATE TABLE\<close> statements declare and the engine enforces
  on every connection: primary keys, \<open>UNIQUE\<close> columns, the \<open>CHECK\<close> on \<open>year\<close>. The
  foreign keys are not among them: no connection of \<open>AuthManager\<close> issues
  \<open>PRAGMA foreign_keys = ON\<close>.\<close>

definition year_check :: "int \<Rightarrow> bool" where
  "year_check y = (y \<ge> 1 \<and> y \<le> 4)"

definition db_constraints :: "db \<Rightarrow> bool" where
  "db_constraints s =
     (distinct (map u_id (users s)) \<and>
      distinct (map u_email (users s)) \<and>
      distinct (map sp_id (student_profiles s)) \<and>
      list_all (\<lambda>p. year_check (sp_year p)) (student_profiles s) \<and>
      distinct (map rt_id (remember_tokens s)) \<and>
      distinct (map rt_token (remember_tokens s)) \<and>
      list_all (\<lambda>i. i \<le> users_seq s) (map u_id (users s)) \<and>
      list_all (\<lambda>i. i \<le> student_profiles_seq s) (map sp_id (student_profiles s)) \<and>
      list_all (\<lambda>i. i \<le> remember_tokens_seq s) (map rt_id (remember_tokens s)))"

subsection \<open>Exceptions and result dictionaries\<close>

datatype sqlite_error = IntegrityError string | OperationalError string

datatype register_result =
    Registered int string
  | RegisterFailed string

datatype login_result =
    LoggedIn int string bool string
  | LoginFailed string

datatype token_result =
    TokenValid int string bool
  | TokenInvalid

datatype save_result =
    Saved string
  | SaveFailed string

record profile_data =
  pd_name :: string
  pd_year :: int
  pd_course :: string
  pd_interests :: string
  pd_goals :: string
  pd_hobbies :: string
  pd_learning_style :: string
  pd_current_skills :: string

datatype profile_result =
    ProfileFound profile_data
  | ProfileNotFound string

subsection \<open>\<open>register_user\<close> and \<open>login_user\<close>\<close>

definition hash_password :: "(string \<Rightarrow> string) \<Rightarrow> string \<Rightarrow> string" where
  "hash_password sha256 password = sha256 password"

text \<open>\<open>INSERT INTO users (email, password_hash) VALUES (?, ?)\<close>; the other columns take
  their defaults. The statement raises \<open>IntegrityError\<close> on a stored email.\<close>

definition insert_user ::
  "timestamp \<Rightarrow> db \<Rightarrow> string \<Rightarrow> string \<Rightarrow> sqlite_error + (int \<times> db)" where
  "insert_user current_timestamp s email password_hash =
     (if email \<in> set (map u_email (users s))
      then Inl (IntegrityError ''UNIQUE constraint failed: users.email'')
      else
        let uid = next_rowid (users_seq s) (map u_id (users s));
            row = \<lparr>u_id = uid, u_email = email, u_password_hash = password_hash,
                   u_created_at = current_timestamp, u_last_login = None,
                   u_is_profile_complete = False\<rparr>
        in Inr (uid, s\<lparr>users := users s @ [row], users_seq := uid\<rparr>))"

text \<open>The two \<open>except\<close> clauses of \<open>register_user\<close>, in their order.\<close>

fun register_except :: "sqlite_error \<Rightarrow> register_result" where
  "register_except (IntegrityError m) = RegisterFailed ''Email already exists!''"
| "register_except (OperationalError m) = RegisterFailed (''Registration failed: '' @ m)"

definition register_user ::
  "(string \<Rightarrow> string) \<Rightarrow> timestamp \<Rightarrow> db \<Rightarrow> string \<Rightarrow> string \<Rightarrow> register_result \<times> db" where
  "register_user sha256 current_timestamp s email password =
     (case insert_user current_timestamp s email (hash_password sha256 password) of
        Inr (user_id, s') \<Rightarrow> (Registered user_id ''User registered successfully!'', s')
      | Inl e \<Rightarrow> (register_except e, s))"

definition login_user ::
  "(string \<Rightarrow> string) \<Rightarrow> timestamp \<Rightarrow> db \<Rightarrow> string \<Rightarrow> string \<Rightarrow> login_result \<times> db" where
  "login_user sha256 current_timestamp s email password =
     (case filter (\<lambda>u. u_email u = email \<and>
                        u_password_hash u = hash_password sha256 password) (users s) of
        user # _ \<Rightarrow>
          (LoggedIn (u_id user) (u_email user) (u_is_profile_complete user)
             ''Login successful!'',
           s\<lparr>users := map (\<lambda>r. if u_id r = u_id user
                                then r\<lparr>u_last_login := Some current_timestamp\<rparr>
                                else r) (users s)\<rparr>)
      | [] \<Rightarrow> (LoginFailed ''Invalid email or password!'', s))"

subsection \<open>Remember-me tokens\<close>

definition timedelta_days :: "nat \<Rightarrow> nat" where
  "timedelta_days d = d * 86400 * 1000000"

text \<open>\<open>create_remember_token\<close> has no \<open>try\<close>: an \<open>IntegrityError\<close> of the \<open>INSERT\<close> leaves the
  method before \<open>commit\<close>, so the \<open>DELETE\<close> is rolled back with it.\<close>

definition create_remember_token ::
  "timestamp \<Rightarrow> timestamp \<Rightarrow> string \<Rightarrow> db \<Rightarrow> int \<Rightarrow> sqlite_error + (string \<times> db)" where
  "create_remember_token datetime_now current_timestamp token s user_id =
     (let expires_at = datetime_now + timedelta_days 30;
          kept = filter (\<lambda>rt. rt_user_id rt \<noteq> user_id) (remember_tokens s)
      in if token \<in> set (map rt_token kept)
         then Inl (IntegrityError ''UNIQUE constraint failed: remember_tokens.token'')
         else
           let rid = next_rowid (remember_tokens_seq s) (map rt_id kept);
               row = \<lparr>rt_id = rid, rt_user_id = user_id, rt_token = token,
                      rt_expires_at = expires_at, rt_created_at = current_timestamp\<rparr>
           in Inr (token, s\<lparr>remember_tokens := kept @ [row], remember_tokens_seq := rid\<rparr>))"

text \<open>The join of \<open>validate_remember_token\<close> and its \<open>fetchone\<close>.\<close>

definition token_join :: "timestamp \<Rightarrow> db \<Rightarrow> string \<Rightarrow> (user_row \<times> token_row) list" where
  "token_join current_timestamp s token =
     [(u, rt). u \<leftarrow> users s, rt \<leftarrow> remember_tokens s,
               u_id u = rt_user_id rt,
               rt_token rt = token \<and> rt_expires_at rt > current_timestamp]"

definition validate_remember_token :: "timestamp \<Rightarrow> db \<Rightarrow> string \<Rightarrow> token_result \<times> db" where
  "validate_remember_token current_timestamp s token =
     (case token_join current_timestamp s token of
        (u, rt) # _ \<Rightarrow> (TokenValid (u_id u) (u_email u) (u_is_profile_complete u), s)
      | [] \<Rightarrow> (TokenInvalid, s))"

text \<open>\<open>logout_user\<close> deletes the tokens of the user; the Streamlit session it also clears
  is not part of the store.\<close>

datatype logout_result = LoggedOut string

definition logout_user :: "db \<Rightarrow> int \<Rightarrow> logout_result \<times> db" where
  "logout_user s user_id =
     (LoggedOut ''Logged out successfully!'',
      s\<lparr>remember_tokens := filter (\<lambda>rt. rt_user_id rt \<noteq> user_id) (remember_tokens s)\<rparr>)"

subsection \<open>Student profiles\<close>

text \<open>Python's \<open>str(e)\<close> of a raised exception.\<close>

fun error_str :: "sqlite_error \<Rightarrow> string" where
  "error_str (IntegrityError m) = m"
| "error_str (OperationalError m) = m"

text \<open>The \<open>UPDATE student_profiles ... WHERE user_id = ?\<close> of \<open>save_student_profile\<close>: every
  row of the user takes the new values; the \<open>CHECK\<close> on \<open>year\<close> aborts the statement as
  soon as one row would change.\<close>

definition update_profile :: "timestamp \<Rightarrow> db \<Rightarrow> int \<Rightarrow> profile_data \<Rightarrow> sqlite_error + db" where
  "update_profile current_timestamp s user_id pd =
     (if (\<exists>p \<in> set (student_profiles s). sp_user_id p = user_id) \<and> \<not> year_check (pd_year pd)
      then Inl (IntegrityError ''CHECK constraint failed: year >= 1 AND year <= 4'')
      else Inr (s\<lparr>student_profiles :=
                    map (\<lambda>p. if sp_user_id p = user_id
                              then p\<lparr>sp_name := pd_name pd, sp_year := pd_year pd,
                                     sp_course := pd_course pd,
                                     sp_interests := pd_interests pd,
                                     sp_goals := pd_goals pd, sp_hobbies := pd_hobbies pd,
                                     sp_learning_style := pd_learning_style pd,
                                     sp_current_skills := pd_current_skills pd,
                                     sp_updated_at := current_timestamp\<rparr>
                              else p) (student_profiles s)\<rparr>))"

text \<open>The \<open>INSERT INTO student_profiles\<close> of \<open>save_student_profile\<close>.\<close>

definition insert_profile :: "timestamp \<Rightarrow> db \<Rightarrow> int \<Rightarrow> profile_data \<Rightarrow> sqlite_error + db" where
  "insert_profile current_timestamp s user_id pd =
     (if \<not> year_check (pd_year pd)
      then Inl (IntegrityError ''CHECK constraint failed: year >= 1 AND year <= 4'')
      else
        let pid = next_rowid (student_profiles_seq s) (map sp_id (student_profiles s));
            row = \<lparr>sp_id = pid, sp_user_id = user_id, sp_name = pd_name pd,
                   sp_year = pd_year pd, sp_course = pd_course pd,
                   sp_interests = pd_interests pd, sp_goals = pd_goals pd,
                   sp_hobbies = pd_hobbies pd,
                   sp_learning_style = pd_learning_style pd,
                   sp_current_skills = pd_current_skills pd,
                   sp_created_at = current_timestamp, sp_updated_at = current_timestamp\<rparr>
        in Inr (s\<lparr>student_profiles := student_profiles s @ [row],
                  student_profiles_seq := pid\<rparr>))"

text \<open>\<open>UPDATE users SET is_profile_complete = TRUE WHERE id = ?\<close>.\<close>

definition mark_profile_complete :: "db \<Rightarrow> int \<Rightarrow> db" where
  "mark_profile_complete s user_id =
     s\<lparr>users := map (\<lambda>u. if u_id u = user_id then u\<lparr>u_is_profile_complete := True\<rparr> else u)
                    (users s)\<rparr>"

text \<open>\<open>save_student_profile\<close>: the \<open>except\<close> clause closes the connection without
  \<open>commit\<close>, so the database stays as it was.\<close>

definition save_student_profile ::
  "timestamp \<Rightarrow> db \<Rightarrow> int \<Rightarrow> profile_data \<Rightarrow> save_result \<times> db" where
  "save_student_profile current_timestamp s user_id pd =
     (let existing_profile = filter (\<lambda>p. sp_user_id p = user_id) (student_profiles s)
      in case (if existing_profile \<noteq> []
               then update_profile current_timestamp s user_id pd
               else insert_profile current_timestamp s user_id pd) of
           Inr s' \<Rightarrow> (Saved ''Profile saved successfully!'', mark_profile_complete s' user_id)
         | Inl e \<Rightarrow> (SaveFailed (''Failed to save profile: '' @ error_str e), s))"

definition get_student_profile :: "db \<Rightarrow> int \<Rightarrow> profile_result" where
  "get_student_profile s user_id =
     (case filter (\<lambda>p. sp_user_id p = user_id) (student_profiles s) of
        p # _ \<Rightarrow>
          ProfileFound
            \<lparr>pd_name = sp_name p, pd_year = sp_year p, pd_course = sp_course p,
             pd_interests = sp_interests p, pd_goals = sp_goals p,
             pd_hobbies = sp_hobbies p, pd_learning_style = sp_learning_style p,
             pd_current_skills = sp_current_skills p\<rparr>
      | [] \<Rightarrow> ProfileNotFound ''Profile not found'')"

subsection \<open>The callers' checks: \<open>app.py\<close> and \<open>student_profile.py\<close>\<close>

text \<open>\<open>validate_password\<close> of \<open>app.py\<close>.\<close>

definition validate_password :: "string \<Rightarrow> bool \<times> string" where
  "validate_password password =
     (if length password < 6
      then (False, ''Password must be at least 6 characters long'')
      else (True, ''Password is valid''))"

text \<open>\<open>validate_email\<close> of \<open>app.py\<close> matches
  \<^verbatim>\<open>^[a-zA-Z0-9._%+-]+@[a-zA-Z0-9.-]+\.[a-zA-Z]{2,}$\<close>.
  Neither character class holds \<open>@\<close> or a line feed and the last one holds no dot, so
  the match is decided by the first \<open>@\<close> and the last dot; \<open>$\<close> also matches before
  one final line feed.\<close>

definition ascii_letter :: "char \<Rightarrow> bool" where
  "ascii_letter c =
     (let n = (of_char c :: nat) in (65 \<le> n \<and> n \<le> 90) \<or> (97 \<le> n \<and> n \<le> 122))"

definition ascii_digit :: "char \<Rightarrow> bool" where
  "ascii_digit c = (let n = (of_char c :: nat) in 48 \<le> n \<and> n \<le> 57)"

definition local_char :: "char \<Rightarrow> bool" where
  "local_char c = (ascii_letter c \<or> ascii_digit c \<or> c \<in> set ''._%+-'')"

definition domain_char :: "char \<Rightarrow> bool" where
  "domain_char c = (ascii_letter c \<or> ascii_digit c \<or> c \<in> set ''.-'')"

definition validate_email :: "string \<Rightarrow> bool" where
  "validate_email email =
     (let e = (if email \<noteq> [] \<and> last email = CHR 0x0A then butlast email else email);
          local_part = takeWhile (\<lambda>c. c \<noteq> CHR ''@'') e;
          rest = dropWhile (\<lambda>c. c \<noteq> CHR ''@'') e;
          dom = tl rest;
          tld = rev (takeWhile (\<lambda>c. c \<noteq> CHR ''.'') (rev dom));
          before = rev (dropWhile (\<lambda>c. c \<noteq> CHR ''.'') (rev dom))
      in local_part \<noteq> [] \<and> list_all local_char local_part \<and> rest \<noteq> [] \<and>
         before \<noteq> [] \<and> butlast before \<noteq> [] \<and> list_all domain_char (butlast before) \<and>
         2 \<le> length tld \<and> list_all ascii_letter tld)"

text \<open>Python's \<open>str.strip()\<close>: the characters \<open>str.isspace\<close> accepts are removed from both
  ends.\<close>

definition isspace :: "char \<Rightarrow> bool" where
  "isspace c =
     ((of_char c :: nat) \<in> {9, 10, 11, 12, 13, 28, 29, 30, 31, 32, 133, 160})"

definition strip :: "string \<Rightarrow> string" where
  "strip v = rev (dropWhile isspace (rev (dropWhile isspace v)))"

text \<open>Python's \<open>sep.join(xs)\<close>.\<close>

fun join :: "string \<Rightarrow> string list \<Rightarrow> string" where
  "join sep [] = []"
| "join sep [x] = x"
| "join sep (x # y # ys) = x @ sep @ join sep (y # ys)"

text \<open>The branch \<open>if submitted:\<close> of the profile form in \<open>student_profile.py\<close>:
  \<open>required_fields\<close>, \<open>missing_fields\<close>, and the call of \<open>save_student_profile\<close> that is
  made only when nothing is missing. The error text is the one the form shows, without
  its leading pictograph.\<close>

definition required_fields :: "profile_data \<Rightarrow> (string \<times> string) list" where
  "required_fields pd =
     [(''name'', pd_name pd), (''course'', pd_course pd), (''interests'', pd_interests pd),
      (''goals'', pd_goals pd), (''hobbies'', pd_hobbies pd),
      (''learning_style'', pd_learning_style pd),
      (''current_skills'', pd_current_skills pd)]"

definition missing_fields :: "profile_data \<Rightarrow> string list" where
  "missing_fields pd = [field. (field, v) \<leftarrow> required_fields pd, strip v = []]"

datatype form_result =
    FormError string
  | FormSubmitted save_result

definition profile_form_submitted ::
  "timestamp \<Rightarrow> db \<Rightarrow> int \<Rightarrow> profile_data \<Rightarrow> form_result \<times> db" where
  "profile_form_submitted current_timestamp s user_id pd =
     (if missing_fields pd \<noteq> []
      then (FormError (''Please fill in all required fields: ''
                        @ join '', '' (missing_fields pd)), s)
      else
        (case save_student_profile current_timestamp s user_id pd of
           (result, s') \<Rightarrow> (FormSubmitted result, s')))"

subsection \<open>A row that holds the submitted values\<close>

text \<open>The eight columns \<open>get_student_profile\<close> selects carry the values of the dictionary
  \<open>profile_data\<close>.\<close>

definition holds_profile :: "profile_row \<Rightarrow> profile_data \<Rightarrow> bool" where
  "holds_profile p pd =
     (sp_name p = pd_name pd \<and> sp_year p = pd_year pd \<and> sp_course p = pd_course pd \<and>
      sp_interests p = pd_interests pd \<and> sp_goals p = pd_goals pd \<and>
      sp_hobbies p = pd_hobbies pd \<and> sp_learning_style p = pd_learning_style pd \<and>
      sp_current_skills p = pd_current_skills pd)"

subsection \<open>The databases the methods can produce\<close>

text \<open>Starting from the empty tables, a database is reached by calls of the methods of
  \<open>AuthManager\<close> with any arguments, clock readings and drawn tokens.\<close>

inductive reachable :: "(string \<Rightarrow> string) \<Rightarrow> db \<Rightarrow> bool" for sha256 where
  reach_init: "reachable sha256 init_database"
| reach_register:
    "reachable sha256 s \<Longrightarrow> register_user sha256 ct s email password = (r, s') \<Longrightarrow>
     reachable sha256 s'"
| reach_login:
    "reachable sha256 s \<Longrightarrow> login_user sha256 ct s email password = (l, s') \<Longrightarrow>
     reachable sha256 s'"
| reach_token:
    "reachable sha256 s \<Longrightarrow> create_remember_token dn ct tok s a = Inr (t, s') \<Longrightarrow>
     reachable sha256 s'"
| reach_logout:
    "reachable sha256 s \<Longrightarrow> logout_user s a = (out, s') \<Longrightarrow> reachable sha256 s'"
| reach_save:
    "reachable sha256 s \<Longrightarrow> save_student_profile ct s a pd = (v, s') \<Longrightarrow>
     reachable sha256 s'"

text \<open>The single-session policy of \<open>create_remember_token\<close>: no account has two token
  rows.\<close>

definition one_token_per_user :: "db \<Rightarrow> bool" where
  "one_token_per_user s =
     (\<forall>a. length (filter (\<lambda>rt. rt_user_id rt = a) (remember_tokens s)) \<le> 1)"

section \<open>Properties\<close>

subsection \<open>Auxiliary facts about the statements\<close>

lemma filter_email_absent:
  "email \<notin> set (map u_email xs) \<Longrightarrow> filter (\<lambda>u. u_email u = email \<and> Q u) xs = []"
  by (induction xs) auto

lemma insert_user_fresh:
  "email \<notin> set (map u_email (users s)) \<Longrightarrow>
   insert_user ct s email ph =
     Inr (next_rowid (users_seq s) (map u_id (users s)),
          s\<lparr>users := users s @
                 [\<lparr>u_id = next_rowid (users_seq s) (map u_id (users s)), u_email = email,
                   u_password_hash = ph, u_created_at = ct, u_last_login = None,
                   u_is_profile_complete = False\<rparr>],
            users_seq := next_rowid (users_seq s) (map u_id (users s))\<rparr>)"
  by (simp add: insert_user_def Let_def)

lemma insert_user_stored:
  "email \<in> set (map u_email (users s)) \<Longrightarrow>
   insert_user ct s email ph = Inl (IntegrityError ''UNIQUE constraint failed: users.email'')"
  by (simp add: insert_user_def)

lemma login_user_no_row:
  "filter (\<lambda>u. u_email u = email \<and> u_password_hash u = hash_password sha256 password) (users s) = [] \<Longrightarrow>
   login_user sha256 ct s email password = (LoginFailed ''Invalid email or password!'', s)"
  by (simp add: login_user_def)

subsection \<open>The constraints of the schema hold in every database that is reached\<close>

text \<open>Every method keeps the constraints of the schema, and no method leaves two token
  rows for one account; so both hold in every reachable database.\<close>

lemma fold_max_ge_seq: "seq \<le> fold max ids (seq::int)"
proof (induction ids arbitrary: seq)
  case Nil
  show ?case by simp
next
  case (Cons i ids)
  have "seq \<le> max i seq" by simp
  also have "max i seq \<le> fold max ids (max i seq)" by (rule Cons.IH)
  finally show ?case by simp
qed

lemma fold_max_ge_elem: "i \<in> set ids \<Longrightarrow> i \<le> fold max ids (seq::int)"
proof (induction ids arbitrary: seq)
  case Nil
  then show ?case by simp
next
  case (Cons j ids)
  show ?case
  proof (cases "i = j")
    case True
    have "i \<le> max j seq" using True by simp
    also have "max j seq \<le> fold max ids (max j seq)" by (rule fold_max_ge_seq)
    finally show ?thesis by simp
  next
    case False
    with Cons.prems have "i \<in> set ids" by simp
    then have "i \<le> fold max ids (max j seq)" by (rule Cons.IH)
    then show ?thesis by simp
  qed
qed

lemma next_rowid_gt_seq: "seq < next_rowid seq ids"
  using fold_max_ge_seq [of seq ids] by (simp add: next_rowid_def)

lemma next_rowid_gt_elem: "i \<in> set ids \<Longrightarrow> i < next_rowid seq ids"
  using fold_max_ge_elem [of i ids seq] by (simp add: next_rowid_def)

lemma next_rowid_fresh: "next_rowid seq ids \<notin> set ids"
  using next_rowid_gt_elem [of "next_rowid seq ids" ids seq] by auto

lemma init_database_constraints: "db_constraints init_database"
  by (simp add: db_constraints_def init_database_def)

lemma insert_user_constraints:
  assumes c: "db_constraints s" and i: "insert_user ct s email ph = Inr (uid, s')"
  shows "db_constraints s'"
proof -
  let ?uid = "next_rowid (users_seq s) (map u_id (users s))"
  have fresh: "email \<notin> set (map u_email (users s))"
    using i by (auto simp: insert_user_def split: if_splits)
  from i insert_user_fresh [OF fresh, of ct ph]
  have us: "users s' = users s @ [\<lparr>u_id = ?uid, u_email = email, u_password_hash = ph,
                   u_created_at = ct, u_last_login = None,
                   u_is_profile_complete = False\<rparr>]"
    and sq: "users_seq s' = ?uid"
    and sp: "student_profiles s' = student_profiles s"
       "student_profiles_seq s' = student_profiles_seq s"
    and rt: "remember_tokens s' = remember_tokens s"
       "remember_tokens_seq s' = remember_tokens_seq s"
    by auto
  have old: "\<forall>i \<in> set (map u_id (users s)). i \<le> users_seq s"
    using c by (simp add: db_constraints_def list_all_iff)
  have le: "\<forall>i \<in> set (map u_id (users s)). i \<le> ?uid"
  proof
    fix i assume "i \<in> set (map u_id (users s))"
    then have "i < ?uid" by (rule next_rowid_gt_elem)
    then show "i \<le> ?uid" by simp
  qed
  have nf: "?uid \<notin> set (map u_id (users s))" by (rule next_rowid_fresh)
  show ?thesis
    using c fresh le nf
    by (simp add: db_constraints_def us sq sp rt list_all_iff)
qed

lemma register_user_constraints:
  assumes "db_constraints s" "register_user sha256 ct s email password = (r, s')"
  shows "db_constraints s'"
proof (cases "insert_user ct s email (hash_password sha256 password)")
  case (Inl e)
  with assms show ?thesis by (simp add: register_user_def)
next
  case (Inr p)
  obtain uid s1 where p: "p = (uid, s1)" by (cases p)
  with Inr assms(2) have "s' = s1" by (simp add: register_user_def)
  with Inr p insert_user_constraints [OF assms(1)] show ?thesis by simp
qed

lemma map_if_keeps:
  assumes "\<And>x. h (g x) = h x"
  shows "map h (map (\<lambda>x. if P x then g x else x) xs) = map h xs"
  using assms by (induction xs) simp_all

lemma login_user_constraints:
  assumes c: "db_constraints s" and l: "login_user sha256 ct s email password = (r, s')"
  shows "db_constraints s'"
proof (cases "filter (\<lambda>u. u_email u = email \<and>
                           u_password_hash u = hash_password sha256 password) (users s)")
  case Nil
  with l have "s' = s" by (simp add: login_user_def)
  with c show ?thesis by simp
next
  case (Cons user rest)
  define g :: "user_row \<Rightarrow> user_row" where "g = (\<lambda>r. r\<lparr>u_last_login := Some ct\<rparr>)"
  define rows where
    "rows = map (\<lambda>r. if u_id r = u_id user then g r else r) (users s)"
  from Cons l have s': "s' = s\<lparr>users := rows\<rparr>"
    by (clarsimp simp: login_user_def rows_def g_def)
  have ids: "map u_id rows = map u_id (users s)"
    unfolding rows_def by (rule map_if_keeps) (simp add: g_def)
  have ems: "map u_email rows = map u_email (users s)"
    unfolding rows_def by (rule map_if_keeps) (simp add: g_def)
  show ?thesis
    using c by (simp add: db_constraints_def s' ids ems)
qed

lemma create_remember_token_constraints:
  assumes c: "db_constraints s"
    and t: "create_remember_token dn ct tok s a = Inr (tok', s')"
  shows "db_constraints s' \<and>
         length (filter (\<lambda>rt. rt_user_id rt = a) (remember_tokens s')) = 1 \<and>
         (\<forall>b. b \<noteq> a \<longrightarrow> filter (\<lambda>rt. rt_user_id rt = b) (remember_tokens s') =
                           filter (\<lambda>rt. rt_user_id rt = b) (remember_tokens s))"
proof -
  define kept where "kept = filter (\<lambda>rt. rt_user_id rt \<noteq> a) (remember_tokens s)"
  define rid where "rid = next_rowid (remember_tokens_seq s) (map rt_id kept)"
  define row where
    "row = \<lparr>rt_id = rid, rt_user_id = a, rt_token = tok,
            rt_expires_at = dn + timedelta_days 30, rt_created_at = ct\<rparr>"
  have fresh: "tok \<notin> set (map rt_token kept)"
    using t by (auto simp: create_remember_token_def kept_def Let_def split: if_splits)
  then have s': "s' = s\<lparr>remember_tokens := kept @ [row], remember_tokens_seq := rid\<rparr>"
    using t by (clarsimp simp: create_remember_token_def kept_def rid_def row_def Let_def)
  have row: "rt_id row = rid" "rt_token row = tok" "rt_user_id row = a"
    by (simp_all add: row_def)
  have d_ids: "distinct (map rt_id kept)" and d_tok: "distinct (map rt_token kept)"
    using c by (simp_all add: db_constraints_def kept_def distinct_map_filter)
  have sub: "set kept \<subseteq> set (remember_tokens s)"
    by (auto simp: kept_def)
  have old: "\<forall>i \<in> set (map rt_id (remember_tokens s)). i \<le> remember_tokens_seq s"
    using c by (simp add: db_constraints_def list_all_iff)
  have seq: "remember_tokens_seq s < rid"
    unfolding rid_def by (rule next_rowid_gt_seq)
  have le: "\<forall>i \<in> set (map rt_id kept). i \<le> rid"
  proof
    fix i assume "i \<in> set (map rt_id kept)"
    then have "i \<in> set (map rt_id (remember_tokens s))" using sub by auto
    with old have "i \<le> remember_tokens_seq s" by blast
    with seq show "i \<le> rid" by simp
  qed
  have nf: "rid \<notin> set (map rt_id kept)"
    unfolding rid_def by (rule next_rowid_fresh)
  have 1: "db_constraints s'"
    using c d_ids d_tok fresh le nf
    by (simp add: db_constraints_def s' row list_all_iff)
  have 2: "length (filter (\<lambda>rt. rt_user_id rt = a) (remember_tokens s')) = 1"
    by (simp add: s' row kept_def filter_empty_conv)
  have 3: "filter (\<lambda>rt. rt_user_id rt = b) (remember_tokens s') =
           filter (\<lambda>rt. rt_user_id rt = b) (remember_tokens s)" if "b \<noteq> a" for b
  proof -
    have "filter (\<lambda>rt. rt_user_id rt = b) kept =
          filter (\<lambda>rt. rt_user_id rt = b) (remember_tokens s)"
      unfolding kept_def using that by (simp add: conj_commute cong: conj_cong rev_conj_cong)
    with that show ?thesis by (simp add: s' row)
  qed
  from 1 2 3 show ?thesis by blast
qed

lemma logout_user_constraints:
  assumes c: "db_constraints s" and l: "logout_user s a = (r, s')"
  shows "db_constraints s' \<and> filter (\<lambda>rt. rt_user_id rt = a) (remember_tokens s') = []"
proof -
  define kept where "kept = filter (\<lambda>rt. rt_user_id rt \<noteq> a) (remember_tokens s)"
  have s': "s' = s\<lparr>remember_tokens := kept\<rparr>"
    using l by (auto simp: logout_user_def kept_def)
  have d_ids: "distinct (map rt_id kept)" and d_tok: "distinct (map rt_token kept)"
    using c by (simp_all add: db_constraints_def kept_def distinct_map_filter)
  have le: "\<forall>i \<in> set (map rt_id kept). i \<le> remember_tokens_seq s"
    using c by (auto simp: db_constraints_def list_all_iff kept_def)
  have 1: "db_constraints s'"
    using c d_ids d_tok le by (simp add: db_constraints_def s' list_all_iff)
  have 2: "filter (\<lambda>rt. rt_user_id rt = a) (remember_tokens s') = []"
    by (simp add: s' kept_def filter_empty_conv)
  from 1 2 show ?thesis by blast
qed

lemma mark_profile_complete_constraints:
  assumes c: "db_constraints s"
  shows "db_constraints (mark_profile_complete s a)"
proof -
  define g :: "user_row \<Rightarrow> user_row" where "g = (\<lambda>u. u\<lparr>u_is_profile_complete := True\<rparr>)"
  define rows where "rows = map (\<lambda>u. if u_id u = a then g u else u) (users s)"
  have m: "mark_profile_complete s a = s\<lparr>users := rows\<rparr>"
    by (simp add: mark_profile_complete_def rows_def g_def)
  have ids: "map u_id rows = map u_id (users s)"
    unfolding rows_def by (rule map_if_keeps) (simp add: g_def)
  have ems: "map u_email rows = map u_email (users s)"
    unfolding rows_def by (rule map_if_keeps) (simp add: g_def)
  show ?thesis
    using c by (simp add: db_constraints_def m ids ems)
qed

lemma update_profile_constraints:
  assumes c: "db_constraints s" and u: "update_profile ct s a pd = Inr s'"
  shows "db_constraints s'"
proof -
  define g :: "profile_row \<Rightarrow> profile_row" where
    "g = (\<lambda>p. p\<lparr>sp_name := pd_name pd, sp_year := pd_year pd,
                  sp_course := pd_course pd, sp_interests := pd_interests pd,
                  sp_goals := pd_goals pd, sp_hobbies := pd_hobbies pd,
                  sp_learning_style := pd_learning_style pd,
                  sp_current_skills := pd_current_skills pd,
                  sp_updated_at := ct\<rparr>)"
  define rows where
    "rows = map (\<lambda>p. if sp_user_id p = a then g p else p) (student_profiles s)"
  have ok: "(\<exists>p \<in> set (student_profiles s). sp_user_id p = a) \<longrightarrow> year_check (pd_year pd)"
    using u by (auto simp: update_profile_def split: if_splits)
  have s': "s' = s\<lparr>student_profiles := rows\<rparr>"
    using u by (auto simp: update_profile_def rows_def g_def split: if_splits)
  have ids: "map sp_id rows = map sp_id (student_profiles s)"
    unfolding rows_def by (rule map_if_keeps) (simp add: g_def)
  have gy: "sp_year (g p) = pd_year pd" for p by (simp add: g_def)
  have old: "\<forall>p \<in> set (student_profiles s). year_check (sp_year p)"
    using c by (simp add: db_constraints_def list_all_iff)
  have yrs: "\<forall>p \<in> set rows. year_check (sp_year p)"
  proof
    fix p assume "p \<in> set rows"
    then obtain q where q: "q \<in> set (student_profiles s)"
      and p: "p = (if sp_user_id q = a then g q else q)"
      unfolding rows_def by auto
    show "year_check (sp_year p)"
    proof (cases "sp_user_id q = a")
      case True
      with q ok have "year_check (pd_year pd)" by blast
      with True p show ?thesis by (simp add: gy)
    next
      case False
      with p q old show ?thesis by simp
    qed
  qed
  show ?thesis
    using c yrs by (simp add: db_constraints_def s' ids list_all_iff)
qed

lemma insert_profile_constraints:
  assumes c: "db_constraints s" and i: "insert_profile ct s a pd = Inr s'"
  shows "db_constraints s'"
proof -
  define pid where
    "pid = next_rowid (student_profiles_seq s) (map sp_id (student_profiles s))"
  define row where
    "row = \<lparr>sp_id = pid, sp_user_id = a, sp_name = pd_name pd,
            sp_year = pd_year pd, sp_course = pd_course pd,
            sp_interests = pd_interests pd, sp_goals = pd_goals pd,
            sp_hobbies = pd_hobbies pd,
            sp_learning_style = pd_learning_style pd,
            sp_current_skills = pd_current_skills pd,
            sp_created_at = ct, sp_updated_at = ct\<rparr>"
  have yc: "year_check (pd_year pd)"
    using i by (auto simp: insert_profile_def split: if_splits)
  then have s': "s' = s\<lparr>student_profiles := student_profiles s @ [row],
                        student_profiles_seq := pid\<rparr>"
    using i by (clarsimp simp: insert_profile_def Let_def pid_def row_def)
  have row: "sp_id row = pid" "sp_year row = pd_year pd" by (simp_all add: row_def)
  have le: "\<forall>i \<in> set (map sp_id (student_profiles s)). i \<le> pid"
  proof
    fix i assume "i \<in> set (map sp_id (student_profiles s))"
    then have "i < pid" unfolding pid_def by (rule next_rowid_gt_elem)
    then show "i \<le> pid" by simp
  qed
  have nf: "pid \<notin> set (map sp_id (student_profiles s))"
    unfolding pid_def by (rule next_rowid_fresh)
  show ?thesis
    using c yc le nf by (simp add: db_constraints_def s' row list_all_iff)
qed

lemma save_student_profile_constraints:
  assumes c: "db_constraints s" and sv: "save_student_profile ct s a pd = (r, s')"
  shows "db_constraints s'"
proof (cases "if filter (\<lambda>p. sp_user_id p = a) (student_profiles s) \<noteq> []
              then update_profile ct s a pd else insert_profile ct s a pd")
  case (Inl e)
  with sv have "s' = s" by (simp add: save_student_profile_def)
  with c show ?thesis by simp
next
  case (Inr s1)
  with sv have s': "s' = mark_profile_complete s1 a"
    by (simp add: save_student_profile_def)
  have "db_constraints s1"
  proof (cases "filter (\<lambda>p. sp_user_id p = a) (student_profiles s) \<noteq> []")
    case True
    with Inr have "update_profile ct s a pd = Inr s1" by simp
    with c show ?thesis by (rule update_profile_constraints)
  next
    case False
    with Inr have "insert_profile ct s a pd = Inr s1" by simp
    with c show ?thesis by (rule insert_profile_constraints)
  qed
  then show ?thesis unfolding s' by (rule mark_profile_complete_constraints)
qed

lemma register_user_tokens:
  "register_user sha256 ct s email password = (r, s') \<Longrightarrow>
   remember_tokens s' = remember_tokens s"
  by (auto simp: register_user_def insert_user_def Let_def split: sum.splits if_splits)

lemma login_user_tokens:
  "login_user sha256 ct s email password = (l, s') \<Longrightarrow>
   remember_tokens s' = remember_tokens s"
  by (auto simp: login_user_def split: list.splits)

lemma save_student_profile_tokens:
  "save_student_profile ct s a pd = (v, s') \<Longrightarrow> remember_tokens s' = remember_tokens s"
  by (auto simp: save_student_profile_def update_profile_def insert_profile_def
      mark_profile_complete_def Let_def split: sum.splits if_splits)

lemma create_remember_token_one:
  assumes c: "db_constraints s" and o: "one_token_per_user s"
    and t: "create_remember_token dn ct tok s a = Inr (tok', s')"
  shows "one_token_per_user s'"
  unfolding one_token_per_user_def
proof
  fix b
  from create_remember_token_constraints [OF c t]
  have 1: "length (filter (\<lambda>rt. rt_user_id rt = a) (remember_tokens s')) = 1"
    and 2: "b \<noteq> a \<Longrightarrow> filter (\<lambda>rt. rt_user_id rt = b) (remember_tokens s') =
                      filter (\<lambda>rt. rt_user_id rt = b) (remember_tokens s)"
    by blast+
  show "length (filter (\<lambda>rt. rt_user_id rt = b) (remember_tokens s')) \<le> 1"
  proof (cases "b = a")
    case True
    with 1 show ?thesis by simp
  next
    case False
    with 2 o show ?thesis by (simp add: one_token_per_user_def)
  qed
qed

lemma length_filter_filter_le:
  "length (filter P (filter Q xs)) \<le> length (filter P xs)"
  by (induction xs) auto

lemma logout_user_one:
  assumes o: "one_token_per_user s" and l: "logout_user s a = (r, s')"
  shows "one_token_per_user s'"
  unfolding one_token_per_user_def
proof
  fix b
  have s': "remember_tokens s' = filter (\<lambda>rt. rt_user_id rt \<noteq> a) (remember_tokens s)"
    using l by (auto simp: logout_user_def)
  have "length (filter (\<lambda>rt. rt_user_id rt = b) (remember_tokens s'))
        \<le> length (filter (\<lambda>rt. rt_user_id rt = b) (remember_tokens s))"
    unfolding s' by (rule length_filter_filter_le)
  also have "\<dots> \<le> 1" using o by (simp add: one_token_per_user_def)
  finally show "length (filter (\<lambda>rt. rt_user_id rt = b) (remember_tokens s')) \<le> 1" .
qed

lemma reachable_invariant:
  "reachable sha256 s \<Longrightarrow> db_constraints s \<and> one_token_per_user s"
proof (induction rule: reachable.induct)
  case reach_init
  have "one_token_per_user init_database"
    by (simp add: one_token_per_user_def init_database_def)
  with init_database_constraints show ?case by simp
next
  case (reach_register s ct email password r s')
  then show ?case
    using register_user_constraints [of s sha256 ct email password r s']
      register_user_tokens [of sha256 ct s email password r s']
    by (simp add: one_token_per_user_def)
next
  case (reach_login s ct email password l s')
  then show ?case
    using login_user_constraints [of s sha256 ct email password l s']
      login_user_tokens [of sha256 ct s email password l s']
    by (simp add: one_token_per_user_def)
next
  case (reach_token s dn ct tok a t s')
  then show ?case
    using create_remember_token_constraints [of s dn ct tok a t s']
      create_remember_token_one [of s dn ct tok a t s']
    by blast
next
  case (reach_logout s a out s')
  then show ?case
    using logout_user_constraints [of s a out s'] logout_user_one [of s a out s']
    by blast
next
  case (reach_save s ct a pd v s')
  then show ?case
    using save_student_profile_constraints [of s ct a pd v s']
      save_student_profile_tokens [of ct s a pd v s']
    by (simp add: one_token_per_user_def)
qed

subsection \<open>Registration and login\<close>

text \<open>
  Claim C1. When no account with email \<open>e\<close> is stored, \<open>register_user e p\<close> succeeds and
  returns an account id, and a \<open>login_user e p\<close> on the resulting database succeeds
  with the same id, the same email and \<open>is_profile_complete = False\<close>. Nothing is asked
  of the form of \<open>e\<close> and \<open>p\<close>.
\<close>

theorem register_then_login:
  assumes "email \<notin> set (map u_email (users s))"
  shows "\<exists>user_id s'.
           register_user sha256 t1 s email password =
             (Registered user_id ''User registered successfully!'', s') \<and>
           fst (login_user sha256 t2 s' email password) =
             LoggedIn user_id email False ''Login successful!''"
proof -
  let ?uid = "next_rowid (users_seq s) (map u_id (users s))"
  let ?row = "\<lparr>u_id = ?uid, u_email = email,
               u_password_hash = hash_password sha256 password, u_created_at = t1,
               u_last_login = None, u_is_profile_complete = False\<rparr>"
  let ?s' = "s\<lparr>users := users s @ [?row], users_seq := ?uid\<rparr>"
  have reg: "register_user sha256 t1 s email password =
               (Registered ?uid ''User registered successfully!'', ?s')"
    by (simp add: register_user_def insert_user_fresh [OF assms])
  have "filter (\<lambda>u. u_email u = email \<and>
                     u_password_hash u = hash_password sha256 password) (users ?s') = [?row]"
    using filter_email_absent [OF assms] by simp
  then have "fst (login_user sha256 t2 ?s' email password) =
               LoggedIn ?uid email False ''Login successful!''"
    by (simp add: login_user_def)
  with reg show ?thesis by blast
qed

theorem register_then_login_witness:
  "''a@x.com'' \<notin> set (map u_email (users init_database)) \<and>
   (\<exists>user_id s'.
      register_user (\<lambda>p. p) 0 init_database ''a@x.com'' ''secret1'' =
        (Registered user_id ''User registered successfully!'', s') \<and>
      fst (login_user (\<lambda>p. p) 1 s' ''a@x.com'' ''secret1'') =
        LoggedIn user_id ''a@x.com'' False ''Login successful!'')"
proof -
  have h: "''a@x.com'' \<notin> set (map u_email (users init_database))"
    by (simp add: init_database_def)
  show ?thesis by (rule conjI [OF h register_then_login [OF h]])
qed

text \<open>
  Claim C2. On one and the same database, a login with a stored email and a password
  whose hash differs from the stored one, and a login with an email that no account
  has, return the same dictionary, \<open>success = False\<close> with the message
  \<open>Invalid email or password!\<close>, and both leave the database as it was.
\<close>

theorem login_failure_identical:
  assumes stored: "e1 \<in> set (map u_email (users s))"
    and wrong: "\<forall>u \<in> set (users s). u_email u = e1 \<longrightarrow> u_password_hash u \<noteq> hash_password sha256 p1"
    and absent: "e2 \<notin> set (map u_email (users s))"
  shows "login_user sha256 t1 s e1 p1 = (LoginFailed ''Invalid email or password!'', s) \<and>
         login_user sha256 t2 s e2 p2 = (LoginFailed ''Invalid email or password!'', s)"
proof -
  have "filter (\<lambda>u. u_email u = e1 \<and> u_password_hash u = hash_password sha256 p1) (users s) = []"
    using wrong by (auto simp: filter_empty_conv)
  then have a: "login_user sha256 t1 s e1 p1 = (LoginFailed ''Invalid email or password!'', s)"
    by (rule login_user_no_row)
  have b: "login_user sha256 t2 s e2 p2 = (LoginFailed ''Invalid email or password!'', s)"
    by (rule login_user_no_row) (rule filter_email_absent [OF absent])
  from a b show ?thesis by simp
qed

theorem login_failure_identical_witness:
  "login_user (\<lambda>p. p) 5 (snd (register_user (\<lambda>p. p) 0 init_database ''a@x.com'' ''secret1''))
     ''a@x.com'' ''wrong'' =
   login_user (\<lambda>p. p) 6 (snd (register_user (\<lambda>p. p) 0 init_database ''a@x.com'' ''secret1''))
     ''b@x.com'' ''secret1''"
proof -
  let ?s = "snd (register_user (\<lambda>p. p) 0 init_database ''a@x.com'' ''secret1'')"
  have u: "users ?s = [\<lparr>u_id = 1, u_email = ''a@x.com'', u_password_hash = ''secret1'',
                        u_created_at = 0, u_last_login = None,
                        u_is_profile_complete = False\<rparr>]"
    by (simp add: register_user_def insert_user_def init_database_def next_rowid_def
        hash_password_def)
  have h1: "''a@x.com'' \<in> set (map u_email (users ?s))" by (simp add: u)
  have h2: "\<forall>u \<in> set (users ?s). u_email u = ''a@x.com'' \<longrightarrow>
              u_password_hash u \<noteq> hash_password (\<lambda>p. p) ''wrong''"
    by (simp add: u hash_password_def)
  have h3: "''b@x.com'' \<notin> set (map u_email (users ?s))" by (simp add: u)
  show ?thesis using login_failure_identical [OF h1 h2 h3, of 5 6 "''secret1''"] by simp
qed

text \<open>
  Claim C8. Registering an email that is already stored fails with the message
  \<open>Email already exists!\<close> and leaves the database, and so the record of the account
  registered first, unchanged. The message the second \<open>except\<close> clause builds for any
  other exception starts with \<open>Registration failed: \<close> and is never this one.
\<close>

theorem register_duplicate_email:
  assumes "email \<in> set (map u_email (users s))"
  shows "register_user sha256 ct s email password = (RegisterFailed ''Email already exists!'', s) \<and>
         (\<forall>m. register_except (OperationalError m) \<noteq> RegisterFailed ''Email already exists!'')"
  by (simp add: register_user_def insert_user_stored [OF assms])

theorem register_duplicate_email_witness:
  "register_user (\<lambda>p. p) 9
     (snd (register_user (\<lambda>p. p) 0 init_database ''a@x.com'' ''secret1''))
     ''a@x.com'' ''other99'' =
   (RegisterFailed ''Email already exists!'',
    snd (register_user (\<lambda>p. p) 0 init_database ''a@x.com'' ''secret1''))"
proof -
  let ?s = "snd (register_user (\<lambda>p. p) 0 init_database ''a@x.com'' ''secret1'')"
  have h: "''a@x.com'' \<in> set (map u_email (users ?s))"
    by (simp add: register_user_def insert_user_def init_database_def Let_def)
  show ?thesis using register_duplicate_email [OF h] by simp
qed

text \<open>
  Claim C9. \<open>register_user\<close> checks nothing but the uniqueness of the email: for every
  email string that is not stored and every password, the empty strings included, it
  succeeds and the new row holds the email and the hash of the password. The checks
  \<open>validate_email\<close> and \<open>validate_password\<close> live in the form of \<open>app.py\<close> only: both
  reject the empty string, which \<open>register_user\<close> accepts.
\<close>

theorem register_no_validation:
  assumes "email \<notin> set (map u_email (users s))"
  shows "\<exists>user_id s'.
           register_user sha256 ct s email password =
             (Registered user_id ''User registered successfully!'', s') \<and>
           (\<exists>u \<in> set (users s'). u_id u = user_id \<and> u_email u = email \<and>
                u_password_hash u = hash_password sha256 password)"
  by (simp add: register_user_def insert_user_fresh [OF assms])

theorem register_no_validation_witness:
  "\<not> validate_email [] \<and> \<not> fst (validate_password []) \<and>
   (\<exists>user_id s'.
      register_user (\<lambda>p. p) 0 init_database [] [] =
        (Registered user_id ''User registered successfully!'', s') \<and>
      (\<exists>u \<in> set (users s'). u_id u = user_id \<and> u_email u = [] \<and>
           u_password_hash u = hash_password (\<lambda>p. p) []))"
proof -
  have h: "[] \<notin> set (map u_email (users init_database))"
    by (simp add: init_database_def)
  have v: "\<not> validate_email [] \<and> \<not> fst (validate_password [])"
    by (simp add: validate_email_def validate_password_def)
  show ?thesis using v register_no_validation [OF h] by blast
qed

subsection \<open>Remember-me tokens\<close>

lemma set_token_join:
  "set (token_join ct s tok) =
     {(u, rt). u \<in> set (users s) \<and> rt \<in> set (remember_tokens s) \<and>
               u_id u = rt_user_id rt \<and> rt_token rt = tok \<and> ct < rt_expires_at rt}"
  by (auto simp: token_join_def)

lemma validate_no_row:
  assumes "set (token_join ct s tok) = {}"
  shows "validate_remember_token ct s tok = (TokenInvalid, s)"
  using assms by (simp add: validate_remember_token_def)

lemma validate_one_row:
  assumes "set (token_join ct s tok) = {(u, rt)}"
  shows "validate_remember_token ct s tok =
           (TokenValid (u_id u) (u_email u) (u_is_profile_complete u), s)"
proof (cases "token_join ct s tok")
  case Nil
  with assms show ?thesis by simp
next
  case (Cons x xs)
  then have "x \<in> set (token_join ct s tok)" by simp
  with assms have "x = (u, rt)" by simp
  with Cons show ?thesis by (simp add: validate_remember_token_def)
qed

lemma create_remember_token_fresh:
  assumes "tok \<notin> set (map rt_token (remember_tokens s))"
  obtains s' row where
    "create_remember_token dn ct tok s a = Inr (tok, s')"
    "users s' = users s"
    "student_profiles s' = student_profiles s"
    "remember_tokens s' = filter (\<lambda>rt. rt_user_id rt \<noteq> a) (remember_tokens s) @ [row]"
    "rt_user_id row = a" "rt_token row = tok"
    "rt_expires_at row = dn + timedelta_days 30"
proof -
  let ?kept = "filter (\<lambda>rt. rt_user_id rt \<noteq> a) (remember_tokens s)"
  let ?rid = "next_rowid (remember_tokens_seq s) (map rt_id ?kept)"
  let ?row = "\<lparr>rt_id = ?rid, rt_user_id = a, rt_token = tok,
               rt_expires_at = dn + timedelta_days 30, rt_created_at = ct\<rparr>"
  let ?s' = "s\<lparr>remember_tokens := ?kept @ [?row], remember_tokens_seq := ?rid\<rparr>"
  have "tok \<notin> set (map rt_token ?kept)"
    using assms by auto
  then have "create_remember_token dn ct tok s a = Inr (tok, ?s')"
    by (simp add: create_remember_token_def Let_def)
  moreover have "users ?s' = users s" "student_profiles ?s' = student_profiles s"
    "remember_tokens ?s' = ?kept @ [?row]" by simp_all
  moreover have "rt_user_id ?row = a" "rt_token ?row = tok"
    "rt_expires_at ?row = dn + timedelta_days 30" by simp_all
  ultimately show thesis by (rule that)
qed



text \<open>
  Claim C3. For an account \<open>a\<close> of the store, two calls of \<open>create_remember_token\<close> in a
  row, each drawing a token that is not stored yet and the second one different from
  the first, both succeed; afterwards the first token is invalid, the second one
  validates (as long as \<open>CURRENT_TIMESTAMP\<close> is before its \<open>expires_at\<close>, thirty days
  after the second \<open>datetime.now()\<close>) and returns the id, email and profile flag of \<open>a\<close>,
  and exactly one token row of \<open>a\<close> is stored.
\<close>

theorem second_token_invalidates_first:
  assumes pk: "db_constraints s0"
    and acc: "u \<in> set (users s0)" "u_id u = a"
    and fresh1: "tok1 \<notin> set (map rt_token (remember_tokens s0))"
    and fresh2: "tok2 \<notin> set (map rt_token (remember_tokens s0))" "tok2 \<noteq> tok1"
    and live: "ct < dn2 + timedelta_days 30"
  shows "\<exists>s1 s2.
           create_remember_token dn1 ct1 tok1 s0 a = Inr (tok1, s1) \<and>
           create_remember_token dn2 ct2 tok2 s1 a = Inr (tok2, s2) \<and>
           validate_remember_token ct s2 tok1 = (TokenInvalid, s2) \<and>
           validate_remember_token ct s2 tok2 =
             (TokenValid a (u_email u) (u_is_profile_complete u), s2) \<and>
           length (filter (\<lambda>rt. rt_user_id rt = a) (remember_tokens s2)) = 1"
proof -
  let ?kept = "filter (\<lambda>rt. rt_user_id rt \<noteq> a) (remember_tokens s0)"
  obtain s1 row1 where c1: "create_remember_token dn1 ct1 tok1 s0 a = Inr (tok1, s1)"
    and u1: "users s1 = users s0"
    and t1: "remember_tokens s1 = ?kept @ [row1]"
    and r1: "rt_user_id row1 = a" "rt_token row1 = tok1"
    by (rule create_remember_token_fresh [OF fresh1])
  have fresh2': "tok2 \<notin> set (map rt_token (remember_tokens s1))"
    using fresh2 r1 by (auto simp: t1)
  have kept1: "filter (\<lambda>rt. rt_user_id rt \<noteq> a) (remember_tokens s1) = ?kept"
    by (simp add: t1 r1)
  obtain s2 row2 where c2: "create_remember_token dn2 ct2 tok2 s1 a = Inr (tok2, s2)"
    and u2: "users s2 = users s1"
    and t2: "remember_tokens s2 = filter (\<lambda>rt. rt_user_id rt \<noteq> a) (remember_tokens s1) @ [row2]"
    and r2: "rt_user_id row2 = a" "rt_token row2 = tok2"
      "rt_expires_at row2 = dn2 + timedelta_days 30"
    by (rule create_remember_token_fresh [OF fresh2'])
  have t2': "remember_tokens s2 = ?kept @ [row2]"
    by (simp add: t2 kept1)
  have kept_tok: "rt_token rt \<noteq> tok1 \<and> rt_token rt \<noteq> tok2" if "rt \<in> set ?kept" for rt
    using that fresh1 fresh2 by auto
  have no1: "set (token_join ct s2 tok1) = {}"
  proof -
    have "rt_token rt \<noteq> tok1" if "rt \<in> set (remember_tokens s2)" for rt
      using that kept_tok r2 fresh2 by (auto simp: t2')
    then show ?thesis by (auto simp: set_token_join)
  qed
  have ids: "distinct (map u_id (users s0))"
    using pk by (simp add: db_constraints_def)
  have uniq: "v = u" if "v \<in> set (users s0)" "u_id v = a" for v
    using ids acc that by (metis distinct_map inj_onD)
  have only2: "rt = row2" if "rt \<in> set (remember_tokens s2)" "rt_token rt = tok2" for rt
    using that kept_tok by (auto simp: t2')
  have one2: "set (token_join ct s2 tok2) = {(u, row2)}"
  proof (rule set_eqI)
    fix x
    show "x \<in> set (token_join ct s2 tok2) \<longleftrightarrow> x \<in> {(u, row2)}"
    proof
      assume "x \<in> set (token_join ct s2 tok2)"
      then obtain v rt where x: "x = (v, rt)" and v: "v \<in> set (users s2)"
        and rt: "rt \<in> set (remember_tokens s2)" and j: "u_id v = rt_user_id rt"
        and tk: "rt_token rt = tok2"
        by (auto simp: set_token_join)
      have "rt = row2" using rt tk by (rule only2)
      moreover have "v = u" using v j \<open>rt = row2\<close> r2 by (simp add: uniq u2 u1)
      ultimately show "x \<in> {(u, row2)}" by (simp add: x)
    next
      assume "x \<in> {(u, row2)}"
      then show "x \<in> set (token_join ct s2 tok2)"
        using acc r2 live by (simp add: set_token_join u2 u1 t2')
    qed
  qed
  have v1: "validate_remember_token ct s2 tok1 = (TokenInvalid, s2)"
    by (rule validate_no_row [OF no1])
  have v2: "validate_remember_token ct s2 tok2 =
              (TokenValid a (u_email u) (u_is_profile_complete u), s2)"
    using validate_one_row [OF one2] acc by simp
  have cnt: "length (filter (\<lambda>rt. rt_user_id rt = a) (remember_tokens s2)) = 1"
    by (simp add: t2' r2 filter_empty_conv)
  from c1 c2 v1 v2 cnt show ?thesis by blast
qed


theorem second_token_invalidates_first_witness:
  "\<exists>s1 s2.
     create_remember_token 10 10 ''tok1''
       \<lparr>users = [\<lparr>u_id = 1, u_email = ''a@x.com'', u_password_hash = ''h'',
                   u_created_at = 0, u_last_login = None,
                   u_is_profile_complete = False\<rparr>],
        users_seq = 1, student_profiles = [], student_profiles_seq = 0,
        remember_tokens = [], remember_tokens_seq = 0\<rparr> 1 = Inr (''tok1'', s1) \<and>
     create_remember_token 20 20 ''tok2'' s1 1 = Inr (''tok2'', s2) \<and>
     validate_remember_token 30 s2 ''tok1'' = (TokenInvalid, s2) \<and>
     validate_remember_token 30 s2 ''tok2'' = (TokenValid 1 ''a@x.com'' False, s2) \<and>
     length (filter (\<lambda>rt. rt_user_id rt = 1) (remember_tokens s2)) = 1"
proof -
  let ?u = "\<lparr>u_id = 1, u_email = ''a@x.com'', u_password_hash = ''h'',
             u_created_at = 0, u_last_login = None, u_is_profile_complete = False\<rparr>"
  let ?s = "\<lparr>users = [?u], users_seq = 1, student_profiles = [],
             student_profiles_seq = 0, remember_tokens = [], remember_tokens_seq = 0\<rparr>"
  have 1: "db_constraints ?s" by (simp add: db_constraints_def)
  have 2: "?u \<in> set (users ?s)" by simp
  have 3: "u_id ?u = 1" by simp
  have 4: "''tok1'' \<notin> set (map rt_token (remember_tokens ?s))" by simp
  have 5: "''tok2'' \<notin> set (map rt_token (remember_tokens ?s))" by simp
  have 6: "''tok2'' \<noteq> ''tok1''" by simp
  have 7: "(30::nat) < 20 + timedelta_days 30" by (simp add: timedelta_days_def)
  show ?thesis
    using second_token_invalidates_first [OF 1 2 3 4 5 6 7, of 10 10 20] by simp
qed

text \<open>
  Claim C4. A token row that is in storage with \<open>expires_at \<le> CURRENT_TIMESTAMP\<close> is
  not accepted: \<open>validate_remember_token\<close> returns \<open>success = False\<close>. It writes
  nothing, so the row stays where it is.
\<close>

theorem expired_token_invalid:
  assumes uq: "db_constraints s"
    and stored: "rt \<in> set (remember_tokens s)"
    and expired: "rt_expires_at rt \<le> ct"
  shows "validate_remember_token ct s (rt_token rt) = (TokenInvalid, s)"
proof -
  have "distinct (map rt_token (remember_tokens s))"
    using uq by (simp add: db_constraints_def)
  then have same: "r = rt" if "r \<in> set (remember_tokens s)" "rt_token r = rt_token rt" for r
    using stored that by (metis distinct_map inj_onD)
  have "\<not> ct < rt_expires_at r" if "r \<in> set (remember_tokens s)" "rt_token r = rt_token rt" for r
    using same [OF that] expired by simp
  then have "set (token_join ct s (rt_token rt)) = {}"
    by (auto simp: set_token_join)
  then show ?thesis by (rule validate_no_row)
qed


theorem expired_token_invalid_witness:
  "validate_remember_token 2592000000010
     \<lparr>users = [\<lparr>u_id = 1, u_email = ''a@x.com'', u_password_hash = ''h'',
                 u_created_at = 0, u_last_login = None,
                 u_is_profile_complete = False\<rparr>],
      users_seq = 1, student_profiles = [], student_profiles_seq = 0,
      remember_tokens = [\<lparr>rt_id = 1, rt_user_id = 1, rt_token = ''tok1'',
                           rt_expires_at = 2592000000010, rt_created_at = 5\<rparr>],
      remember_tokens_seq = 1\<rparr> ''tok1'' =
   (TokenInvalid,
     \<lparr>users = [\<lparr>u_id = 1, u_email = ''a@x.com'', u_password_hash = ''h'',
                 u_created_at = 0, u_last_login = None,
                 u_is_profile_complete = False\<rparr>],
      users_seq = 1, student_profiles = [], student_profiles_seq = 0,
      remember_tokens = [\<lparr>rt_id = 1, rt_user_id = 1, rt_token = ''tok1'',
                           rt_expires_at = 2592000000010, rt_created_at = 5\<rparr>],
      remember_tokens_seq = 1\<rparr>)"
proof -
  let ?rt = "\<lparr>rt_id = 1, rt_user_id = 1, rt_token = ''tok1'',
              rt_expires_at = 2592000000010, rt_created_at = 5\<rparr>"
  let ?s = "\<lparr>users = [\<lparr>u_id = 1, u_email = ''a@x.com'', u_password_hash = ''h'',
                       u_created_at = 0, u_last_login = None,
                       u_is_profile_complete = False\<rparr>],
             users_seq = 1, student_profiles = [], student_profiles_seq = 0,
             remember_tokens = [?rt], remember_tokens_seq = 1\<rparr>"
  have 1: "db_constraints ?s" by (simp add: db_constraints_def)
  have 2: "?rt \<in> set (remember_tokens ?s)" by simp
  have 3: "rt_expires_at ?rt \<le> 2592000000010" by simp
  show ?thesis
    using expired_token_invalid [OF 1 2 3] by simp
qed





subsection \<open>Student profiles\<close>

lemma save_student_profile_bad_year:
  assumes "\<not> year_check (pd_year pd)"
  shows "save_student_profile ct s a pd =
           (SaveFailed (''Failed to save profile: '' @
                        ''CHECK constraint failed: year >= 1 AND year <= 4''), s)"
proof (cases "filter (\<lambda>p. sp_user_id p = a) (student_profiles s) = []")
  case True
  then show ?thesis
    using assms by (simp add: save_student_profile_def insert_profile_def)
next
  case False
  then have "\<exists>p \<in> set (student_profiles s). sp_user_id p = a"
    by (simp add: filter_empty_conv)
  with False show ?thesis
    using assms by (simp add: save_student_profile_def update_profile_def)
qed


text \<open>
  Claim C5. With a \<open>year\<close> outside 1..4, \<open>save_student_profile\<close> returns
  \<open>success = False\<close> with a message that starts with \<open>Failed to save profile: \<close>, and
  the database is the one it started from: a profile row the account had before and
  its \<open>is_profile_complete\<close> flag are untouched.
\<close>

theorem save_rejects_year_out_of_range:
  assumes "\<not> (1 \<le> pd_year pd \<and> pd_year pd \<le> 4)"
  shows "\<exists>m. save_student_profile ct s a pd =
               (SaveFailed (''Failed to save profile: '' @ m), s)"
proof -
  have "\<not> year_check (pd_year pd)"
    using assms by (simp add: year_check_def)
  then show ?thesis
    by (blast intro: save_student_profile_bad_year)
qed


theorem save_rejects_year_out_of_range_witness:
  "\<exists>m. save_student_profile 9
     \<lparr>users = [\<lparr>u_id = 1, u_email = ''a@x.com'', u_password_hash = ''h'',
                 u_created_at = 0, u_last_login = None,
                 u_is_profile_complete = True\<rparr>],
      users_seq = 1,
      student_profiles = [\<lparr>sp_id = 1, sp_user_id = 1, sp_name = ''Ann'', sp_year = 2,
                            sp_course = ''CS'', sp_interests = ''AI'',
                            sp_goals = ''Learn ML'', sp_hobbies = ''Chess'',
                            sp_learning_style = ''Visual'',
                            sp_current_skills = ''Python'',
                            sp_created_at = 3, sp_updated_at = 3\<rparr>],
      student_profiles_seq = 1, remember_tokens = [], remember_tokens_seq = 0\<rparr>
     1
     \<lparr>pd_name = ''Ann'', pd_year = 5, pd_course = ''CS'', pd_interests = ''AI'',
      pd_goals = ''Learn ML'', pd_hobbies = ''Chess'', pd_learning_style = ''Visual'',
      pd_current_skills = ''Python''\<rparr> =
   (SaveFailed (''Failed to save profile: '' @ m),
     \<lparr>users = [\<lparr>u_id = 1, u_email = ''a@x.com'', u_password_hash = ''h'',
                 u_created_at = 0, u_last_login = None,
                 u_is_profile_complete = True\<rparr>],
      users_seq = 1,
      student_profiles = [\<lparr>sp_id = 1, sp_user_id = 1, sp_name = ''Ann'', sp_year = 2,
                            sp_course = ''CS'', sp_interests = ''AI'',
                            sp_goals = ''Learn ML'', sp_hobbies = ''Chess'',
                            sp_learning_style = ''Visual'',
                            sp_current_skills = ''Python'',
                            sp_created_at = 3, sp_updated_at = 3\<rparr>],
      student_profiles_seq = 1, remember_tokens = [], remember_tokens_seq = 0\<rparr>)"
proof -
  let ?pd = "\<lparr>pd_name = ''Ann'', pd_year = 5, pd_course = ''CS'', pd_interests = ''AI'',
      pd_goals = ''Learn ML'', pd_hobbies = ''Chess'', pd_learning_style = ''Visual'',
      pd_current_skills = ''Python''\<rparr>"
  have h: "\<not> (1 \<le> pd_year ?pd \<and> pd_year ?pd \<le> 4)" by simp
  show ?thesis
    by (rule save_rejects_year_out_of_range [OF h])
qed

lemma get_student_profile_holds:
  assumes ne: "filter (\<lambda>p. sp_user_id p = a) (student_profiles s) \<noteq> []"
    and all: "\<forall>p \<in> set (student_profiles s). sp_user_id p = a \<longrightarrow> holds_profile p pd"
  shows "get_student_profile s a = ProfileFound pd"
proof (cases "filter (\<lambda>p. sp_user_id p = a) (student_profiles s)")
  case Nil
  with ne show ?thesis by simp
next
  case (Cons p ps)
  then have "p \<in> set (filter (\<lambda>p. sp_user_id p = a) (student_profiles s))" by simp
  then have "holds_profile p pd" using all by simp
  then show ?thesis
    using Cons by (simp add: get_student_profile_def holds_profile_def)
qed

lemma mark_profile_complete_profiles:
  "student_profiles (mark_profile_complete s a) = student_profiles s"
  by (simp add: mark_profile_complete_def)

lemma mark_profile_complete_users:
  "users (mark_profile_complete s a) =
     map (\<lambda>u. if u_id u = a then u\<lparr>u_is_profile_complete := True\<rparr> else u) (users s)"
  by (simp add: mark_profile_complete_def)

lemma mark_profile_complete_flag:
  assumes "v \<in> set (users (mark_profile_complete s a))" "u_id v = a"
  shows "u_is_profile_complete v"
proof -
  let ?f = "\<lambda>u. if u_id u = a then u\<lparr>u_is_profile_complete := True\<rparr> else u"
  from assms(1) have "v \<in> ?f ` set (users s)"
    by (simp only: mark_profile_complete_users set_map)
  then obtain u where v: "v = ?f u" and u: "u \<in> set (users s)"
    by (rule imageE)
  show ?thesis
  proof (cases "u_id u = a")
    case True
    with v show ?thesis by simp
  next
    case False
    with v assms(2) show ?thesis by simp
  qed
qed

lemma mark_profile_complete_keeps:
  assumes "u \<in> set (users s)" "u_id u = a"
  shows "u\<lparr>u_is_profile_complete := True\<rparr> \<in> set (users (mark_profile_complete s a))"
proof -
  let ?f = "\<lambda>u. if u_id u = a then u\<lparr>u_is_profile_complete := True\<rparr> else u"
  have "?f u \<in> set (map ?f (users s))"
    using assms(1) by (simp only: set_map image_eqI)
  moreover have "?f u = u\<lparr>u_is_profile_complete := True\<rparr>"
    using assms(2) by simp
  ultimately show ?thesis
    by (simp only: mark_profile_complete_users)
qed

lemma map_if_all:
  assumes "\<And>x. P x \<Longrightarrow> Q (g x)"
  shows "\<forall>y \<in> set (map (\<lambda>x. if P x then g x else x) xs). P y \<longrightarrow> Q y"
  using assms by auto

lemma map_if_some:
  assumes "x \<in> set xs" "P x" "\<And>x. P x \<Longrightarrow> P (g x)"
  shows "filter P (map (\<lambda>x. if P x then g x else x) xs) \<noteq> []"
proof -
  have "g x \<in> set (map (\<lambda>x. if P x then g x else x) xs)"
    using assms(1,2) by force
  moreover have "P (g x)" using assms(2,3) by simp
  ultimately show ?thesis unfolding filter_empty_conv by blast
qed

lemma update_profile_ok:
  assumes "year_check (pd_year pd)"
  obtains s' where "update_profile ct s a pd = Inr s'" "users s' = users s"
    "\<forall>p \<in> set (student_profiles s'). sp_user_id p = a \<longrightarrow> holds_profile p pd"
    "filter (\<lambda>p. sp_user_id p = a) (student_profiles s) \<noteq> [] \<Longrightarrow>
     filter (\<lambda>p. sp_user_id p = a) (student_profiles s') \<noteq> []"
proof -
  define g :: "profile_row \<Rightarrow> profile_row" where
    "g = (\<lambda>p. p\<lparr>sp_name := pd_name pd, sp_year := pd_year pd,
                  sp_course := pd_course pd, sp_interests := pd_interests pd,
                  sp_goals := pd_goals pd, sp_hobbies := pd_hobbies pd,
                  sp_learning_style := pd_learning_style pd,
                  sp_current_skills := pd_current_skills pd,
                  sp_updated_at := ct\<rparr>)"
  define P :: "profile_row \<Rightarrow> bool" where "P = (\<lambda>p. sp_user_id p = a)"
  define rows where "rows = map (\<lambda>p. if P p then g p else p) (student_profiles s)"
  define s' where "s' = s\<lparr>student_profiles := rows\<rparr>"
  have 1: "update_profile ct s a pd = Inr s'"
    using assms by (simp add: update_profile_def s'_def rows_def g_def P_def)
  have 2: "users s' = users s" by (simp add: s'_def)
  have sp: "student_profiles s' = rows" by (simp add: s'_def)
  have gh: "holds_profile (g p) pd" for p
    by (simp add: holds_profile_def g_def)
  have gu: "P (g p)" if "P p" for p
    using that by (simp add: g_def P_def)
  have "\<forall>p \<in> set rows. P p \<longrightarrow> holds_profile p pd"
    unfolding rows_def
    by (rule map_if_all [where P = P and g = g and Q = "\<lambda>p. holds_profile p pd"]) (rule gh)
  then have 3: "\<forall>p \<in> set (student_profiles s'). sp_user_id p = a \<longrightarrow> holds_profile p pd"
    by (simp add: sp P_def)
  have 4: "filter (\<lambda>p. sp_user_id p = a) (student_profiles s') \<noteq> []"
    if "filter (\<lambda>p. sp_user_id p = a) (student_profiles s) \<noteq> []"
  proof -
    from that obtain p where p: "p \<in> set (student_profiles s)" "P p"
      unfolding filter_empty_conv P_def by blast
    have "filter P rows \<noteq> []"
      unfolding rows_def
      by (rule map_if_some [where P = P and g = g and x = p, OF p gu])
    then show ?thesis by (simp add: sp P_def)
  qed
  from 1 2 3 4 show thesis by (rule that)
qed

lemma insert_profile_ok:
  assumes "year_check (pd_year pd)"
    and "filter (\<lambda>p. sp_user_id p = a) (student_profiles s) = []"
  obtains s' where "insert_profile ct s a pd = Inr s'" "users s' = users s"
    "\<forall>p \<in> set (student_profiles s'). sp_user_id p = a \<longrightarrow> holds_profile p pd"
    "filter (\<lambda>p. sp_user_id p = a) (student_profiles s') \<noteq> []"
proof -
  define row where
    "row = \<lparr>sp_id = next_rowid (student_profiles_seq s) (map sp_id (student_profiles s)),
             sp_user_id = a, sp_name = pd_name pd,
             sp_year = pd_year pd, sp_course = pd_course pd,
             sp_interests = pd_interests pd, sp_goals = pd_goals pd,
             sp_hobbies = pd_hobbies pd,
             sp_learning_style = pd_learning_style pd,
             sp_current_skills = pd_current_skills pd,
             sp_created_at = ct, sp_updated_at = ct\<rparr>"
  define s' where
    "s' = s\<lparr>student_profiles := student_profiles s @ [row],
            student_profiles_seq :=
              next_rowid (student_profiles_seq s) (map sp_id (student_profiles s))\<rparr>"
  have 1: "insert_profile ct s a pd = Inr s'"
    using assms(1) by (simp add: insert_profile_def Let_def s'_def row_def)
  have 2: "users s' = users s" by (simp add: s'_def)
  have sp: "student_profiles s' = student_profiles s @ [row]" by (simp add: s'_def)
  have rh: "holds_profile row pd" by (simp add: holds_profile_def row_def)
  have ru: "sp_user_id row = a" by (simp add: row_def)
  have old: "\<forall>p \<in> set (student_profiles s). sp_user_id p \<noteq> a"
    using assms(2) by (simp add: filter_empty_conv)
  have 3: "\<forall>p \<in> set (student_profiles s'). sp_user_id p = a \<longrightarrow> holds_profile p pd"
    using old rh by (auto simp: sp)
  have 4: "filter (\<lambda>p. sp_user_id p = a) (student_profiles s') \<noteq> []"
    using ru by (simp add: sp)
  from 1 2 3 4 show thesis by (rule that)
qed


text \<open>
  Claim C7. For an account \<open>a\<close> of the store and a profile whose \<open>year\<close> is in 1..4,
  \<open>save_student_profile\<close> succeeds, \<open>get_student_profile\<close> on the resulting database
  returns exactly the saved values, and the account \<open>a\<close> is still there with
  \<open>is_profile_complete\<close> set. Nothing is asked of the text fields.
\<close>

theorem save_then_get:
  assumes year: "1 \<le> pd_year pd \<and> pd_year pd \<le> 4"
    and acc: "u \<in> set (users s)" "u_id u = a"
  shows "\<exists>s'. save_student_profile ct s a pd = (Saved ''Profile saved successfully!'', s') \<and>
              get_student_profile s' a = ProfileFound pd \<and>
              (\<exists>v \<in> set (users s'). u_id v = a) \<and>
              (\<forall>v \<in> set (users s'). u_id v = a \<longrightarrow> u_is_profile_complete v)"
proof -
  let ?P = "\<lambda>p. sp_user_id p = a"
  have yc: "year_check (pd_year pd)"
    using year by (simp add: year_check_def)
  obtain s1 where
    st: "(if filter ?P (student_profiles s) \<noteq> []
          then update_profile ct s a pd else insert_profile ct s a pd) = Inr s1"
    and us: "users s1 = users s"
    and all: "\<forall>p \<in> set (student_profiles s1). sp_user_id p = a \<longrightarrow> holds_profile p pd"
    and ne: "filter ?P (student_profiles s1) \<noteq> []"
  proof (cases "filter ?P (student_profiles s) = []")
    case True
    obtain s1 where "insert_profile ct s a pd = Inr s1" "users s1 = users s"
      "\<forall>p \<in> set (student_profiles s1). sp_user_id p = a \<longrightarrow> holds_profile p pd"
      "filter ?P (student_profiles s1) \<noteq> []"
      by (rule insert_profile_ok [OF yc True])
    with True that show ?thesis by simp
  next
    case False
    obtain s1 where "update_profile ct s a pd = Inr s1" "users s1 = users s"
      "\<forall>p \<in> set (student_profiles s1). sp_user_id p = a \<longrightarrow> holds_profile p pd"
      "filter ?P (student_profiles s) \<noteq> [] \<Longrightarrow> filter ?P (student_profiles s1) \<noteq> []"
      by (rule update_profile_ok [OF yc, where ct = ct and s = s and a = a]) blast
    with False that show ?thesis by simp
  qed
  define s' where "s' = mark_profile_complete s1 a"
  have sv: "save_student_profile ct s a pd = (Saved ''Profile saved successfully!'', s')"
    using st by (simp add: save_student_profile_def s'_def)
  have gt: "get_student_profile s' a = ProfileFound pd"
    unfolding s'_def
  proof (rule get_student_profile_holds)
    show "filter ?P (student_profiles (mark_profile_complete s1 a)) \<noteq> []"
      using ne by (simp add: mark_profile_complete_profiles)
    show "\<forall>p \<in> set (student_profiles (mark_profile_complete s1 a)).
            sp_user_id p = a \<longrightarrow> holds_profile p pd"
      using all by (simp add: mark_profile_complete_profiles)
  qed
  have ex: "\<exists>v \<in> set (users s'). u_id v = a"
  proof -
    have "u \<in> set (users s1)" using acc(1) by (simp only: us)
    then have "u\<lparr>u_is_profile_complete := True\<rparr> \<in> set (users s')"
      unfolding s'_def using acc(2) by (rule mark_profile_complete_keeps)
    moreover have "u_id (u\<lparr>u_is_profile_complete := True\<rparr>) = a"
      using acc(2) by simp
    ultimately show ?thesis by (rule bexI [rotated])
  qed
  have fl: "\<forall>v \<in> set (users s'). u_id v = a \<longrightarrow> u_is_profile_complete v"
    unfolding s'_def using mark_profile_complete_flag by blast
  from sv gt ex fl show ?thesis by blast
qed


theorem save_then_get_witness:
  "\<exists>s'. save_student_profile 9
     \<lparr>users = [\<lparr>u_id = 1, u_email = ''a@x.com'', u_password_hash = ''h'',
                 u_created_at = 0, u_last_login = None,
                 u_is_profile_complete = False\<rparr>],
      users_seq = 1, student_profiles = [], student_profiles_seq = 0,
      remember_tokens = [], remember_tokens_seq = 0\<rparr>
     1
     \<lparr>pd_name = ''Ann'', pd_year = 2, pd_course = ''CS'', pd_interests = ''AI'',
      pd_goals = ''Learn ML'', pd_hobbies = ''Chess'', pd_learning_style = ''Visual'',
      pd_current_skills = ''Python''\<rparr> = (Saved ''Profile saved successfully!'', s') \<and>
     get_student_profile s' 1 =
       ProfileFound
         \<lparr>pd_name = ''Ann'', pd_year = 2, pd_course = ''CS'', pd_interests = ''AI'',
          pd_goals = ''Learn ML'', pd_hobbies = ''Chess'', pd_learning_style = ''Visual'',
          pd_current_skills = ''Python''\<rparr> \<and>
     (\<exists>v \<in> set (users s'). u_id v = 1) \<and>
     (\<forall>v \<in> set (users s'). u_id v = 1 \<longrightarrow> u_is_profile_complete v)"
proof -
  let ?u = "\<lparr>u_id = 1, u_email = ''a@x.com'', u_password_hash = ''h'',
             u_created_at = 0, u_last_login = None, u_is_profile_complete = False\<rparr>"
  let ?s = "\<lparr>users = [?u], users_seq = 1, student_profiles = [],
             student_profiles_seq = 0, remember_tokens = [], remember_tokens_seq = 0\<rparr>"
  let ?pd = "\<lparr>pd_name = ''Ann'', pd_year = 2, pd_course = ''CS'', pd_interests = ''AI'',
      pd_goals = ''Learn ML'', pd_hobbies = ''Chess'', pd_learning_style = ''Visual'',
      pd_current_skills = ''Python''\<rparr>"
  have 1: "1 \<le> pd_year ?pd \<and> pd_year ?pd \<le> 4" by simp
  have 2: "?u \<in> set (users ?s)" by simp
  have 3: "u_id ?u = 1" by simp
  show ?thesis
    by (rule save_then_get [OF 1 2 3])
qed

lemma missing_fields_set:
  "set (missing_fields pd) = {f. \<exists>v. (f, v) \<in> set (required_fields pd) \<and> strip v = []}"
  by (auto simp: missing_fields_def)


text \<open>
  Claim C6, as the code has it. The check of the required text fields is made by the
  profile form of \<open>student_profile.py\<close>, not by \<open>save_student_profile\<close>: when some
  required field is empty after \<open>strip()\<close>, the form shows an error that lists exactly
  the names of the blank fields, does not call \<open>save_student_profile\<close>, and the database
  is unchanged.
\<close>

theorem form_rejects_blank_fields:
  assumes "\<exists>(f, v) \<in> set (required_fields pd). strip v = []"
  shows "profile_form_submitted ct s a pd =
           (FormError (''Please fill in all required fields: ''
                       @ join '', '' (missing_fields pd)), s) \<and>
         missing_fields pd \<noteq> [] \<and>
         set (missing_fields pd) =
           {f. \<exists>v. (f, v) \<in> set (required_fields pd) \<and> strip v = []}"
proof -
  have "set (missing_fields pd) \<noteq> {}"
    using assms unfolding missing_fields_set by blast
  then have ne: "missing_fields pd \<noteq> []" by auto
  then have "profile_form_submitted ct s a pd =
           (FormError (''Please fill in all required fields: ''
                       @ join '', '' (missing_fields pd)), s)"
    by (simp add: profile_form_submitted_def)
  with ne missing_fields_set show ?thesis by blast
qed

theorem form_rejects_blank_fields_witness:
  "profile_form_submitted 9 init_database 1
     \<lparr>pd_name = ''  '', pd_year = 2, pd_course = ''CS'', pd_interests = [],
      pd_goals = ''Learn ML'', pd_hobbies = ''Chess'', pd_learning_style = ''Visual'',
      pd_current_skills = ''Python''\<rparr> =
   (FormError ''Please fill in all required fields: name, interests'', init_database)"
proof -
  let ?pd = "\<lparr>pd_name = ''  '', pd_year = 2, pd_course = ''CS'', pd_interests = [],
      pd_goals = ''Learn ML'', pd_hobbies = ''Chess'', pd_learning_style = ''Visual'',
      pd_current_skills = ''Python''\<rparr>"
  have m: "missing_fields ?pd = [''name'', ''interests'']"
    by (simp add: missing_fields_def required_fields_def strip_def isspace_def)
  have h: "\<exists>(f, v) \<in> set (required_fields ?pd). strip v = []"
    by (simp add: required_fields_def strip_def isspace_def)
  show ?thesis
    using form_rejects_blank_fields [OF h, of 9 init_database 1] by (simp add: m)
qed

text \<open>
  Claim C6, as it is stated for \<open>save_student_profile\<close>, does not hold:
  \<open>save_student_profile\<close> itself does not look at the text fields. Called for a stored
  account with a \<open>name\<close> of two spaces and empty \<open>interests\<close> (both empty after
  \<open>strip()\<close>) and a \<open>year\<close> of 2, it reports success and the new row, blank fields
  included, is in \<open>student_profiles\<close>.
\<close>

theorem save_blank_fields_counterexample:
  "strip ''  '' = [] \<and> strip [] = [] \<and>
   fst (save_student_profile 9
     \<lparr>users = [\<lparr>u_id = 1, u_email = ''a@x.com'', u_password_hash = ''h'',
                 u_created_at = 0, u_last_login = None,
                 u_is_profile_complete = False\<rparr>],
      users_seq = 1, student_profiles = [], student_profiles_seq = 0,
      remember_tokens = [], remember_tokens_seq = 0\<rparr>
     1
     \<lparr>pd_name = ''  '', pd_year = 2, pd_course = ''CS'', pd_interests = [],
      pd_goals = ''Learn ML'', pd_hobbies = ''Chess'', pd_learning_style = ''Visual'',
      pd_current_skills = ''Python''\<rparr>) = Saved ''Profile saved successfully!'' \<and>
   student_profiles (snd (save_student_profile 9
     \<lparr>users = [\<lparr>u_id = 1, u_email = ''a@x.com'', u_password_hash = ''h'',
                 u_created_at = 0, u_last_login = None,
                 u_is_profile_complete = False\<rparr>],
      users_seq = 1, student_profiles = [], student_profiles_seq = 0,
      remember_tokens = [], remember_tokens_seq = 0\<rparr>
     1
     \<lparr>pd_name = ''  '', pd_year = 2, pd_course = ''CS'', pd_interests = [],
      pd_goals = ''Learn ML'', pd_hobbies = ''Chess'', pd_learning_style = ''Visual'',
      pd_current_skills = ''Python''\<rparr>)) =
     [\<lparr>sp_id = 1, sp_user_id = 1, sp_name = ''  '', sp_year = 2, sp_course = ''CS'',
       sp_interests = [], sp_goals = ''Learn ML'', sp_hobbies = ''Chess'',
       sp_learning_style = ''Visual'', sp_current_skills = ''Python'',
       sp_created_at = 9, sp_updated_at = 9\<rparr>]"
  by (simp add: strip_def isspace_def save_student_profile_def insert_profile_def
      year_check_def next_rowid_def mark_profile_complete_def Let_def)

end
